theory Spec2Isabelle
  imports Complex_Main "HOL-Library.Multiset"
begin

section \<open>Watermark Genie: numbers and images\<close>

text \<open>
  Python's \<open>/\<close> on two integers and the literals \<open>0.5\<close> and \<open>1.5\<close> produce floats.
  They are modelled as exact rationals: for the pixel counts and percentages that
  reach the program every quotient the code truncates is further from the
  next integer than a double's rounding error, so the truncated values agree.
  \<open>int(x)\<close> truncates towards zero.
\<close>

definition py_int :: "rat \<Rightarrow> int" where
  "py_int x = (if 0 \<le> x then \<lfloor>x\<rfloor> else \<lceil>x\<rceil>)"

datatype py_error = ZeroDivisionError | ValueError | FileNotFoundError | UnidentifiedImageError

text \<open>
  A PIL image: its mode, its size \<open>(width, height)\<close>, and its pixel content split into
  the colour bands (opaque here) and the alpha band, both row by row.
\<close>

record image =
  mode :: string
  size :: "int \<times> int"
  colour :: "nat list"
  alpha :: "int list"

definition im_width :: "image \<Rightarrow> int" where
  "im_width im = fst (size im)"

definition im_height :: "image \<Rightarrow> int" where
  "im_height im = snd (size im)"

subsection \<open>The three target-width computations\<close>

text \<open>\<open>WatermarkGenieGUI._update_single_preview\<close>, lines 1070 to 1087.\<close>

definition preview_target_width :: "image \<Rightarrow> int \<Rightarrow> bool \<Rightarrow> int" where
  "preview_target_width base_img scale auto_scale =
     (let (base_width, base_height) = size base_img;
          is_portrait = base_height > base_width
      in if auto_scale then
           (if is_portrait then max 40 (py_int (of_int base_width * (1 / 2)))
            else max 40 (py_int (of_int (min base_width base_height * scale) / 100)))
         else
           (if is_portrait then max 40 (py_int (of_int (base_width * scale) / 100 * (3 / 2)))
            else max 40 (py_int (of_int (base_width * scale) / 100))))"

text \<open>\<open>process_single_file\<close> inside \<open>WatermarkGenieGUI._process_images\<close>, lines 1283 to 1295.\<close>

definition batch_target_width :: "image \<Rightarrow> int \<Rightarrow> bool \<Rightarrow> int" where
  "batch_target_width img scale auto_scale =
     (let is_portrait = im_height img > im_width img
      in if auto_scale then
           (if is_portrait then max 40 (py_int (of_int (im_width img) * (1 / 2)))
            else max 40 (py_int (of_int (min (fst (size img)) (snd (size img)) * scale) / 100)))
         else
           (if is_portrait then max 40 (py_int (of_int (im_width img * scale) / 100 * (3 / 2)))
            else max 40 (py_int (of_int (im_width img * scale) / 100))))"

text \<open>\<open>WatermarkGenieCLI.run\<close>, lines 1712 to 1724, with \<open>args.scale\<close> and \<open>args.auto\<close>.\<close>

definition cli_target_width :: "image \<Rightarrow> int \<Rightarrow> bool \<Rightarrow> int" where
  "cli_target_width img args_scale args_auto =
     (let is_portrait = im_height img > im_width img
      in if args_auto then
           (if is_portrait then max 40 (py_int (of_int (im_width img) * (1 / 2)))
            else max 40 (py_int (of_int (min (fst (size img)) (snd (size img)) * args_scale) / 100)))
         else
           (if is_portrait then max 40 (py_int (of_int (im_width img * args_scale) / 100 * (3 / 2)))
            else max 40 (py_int (of_int (im_width img * args_scale) / 100))))"

subsection \<open>The imaging library\<close>

text \<open>
  PIL is not part of the repository. What its operations do to pixels (colour conversion,
  Lanczos resampling, alpha blending) is a parameter of the model; what they do to the
  geometry and to object identity is fixed: \<open>convert\<close>, \<open>resize\<close>, \<open>copy\<close>, \<open>split\<close> and
  \<open>point\<close> return new images, \<open>putalpha\<close> and \<open>paste\<close> change the image they are called on.
  The library's own argument checks are not modelled.
\<close>

record pil =
  convert_px :: "string \<Rightarrow> image \<Rightarrow> nat list \<times> int list"
  resample_px :: "int \<times> int \<Rightarrow> image \<Rightarrow> nat list \<times> int list"
  paste_px :: "image \<Rightarrow> image \<Rightarrow> int \<times> int \<Rightarrow> nat list \<times> int list"
  decode :: "string \<Rightarrow> image option"
  encode :: "string \<Rightarrow> image \<Rightarrow> string"

definition copy :: "image \<Rightarrow> image" where
  "copy im = im"

definition convert :: "pil \<Rightarrow> image \<Rightarrow> string \<Rightarrow> image" where
  "convert P im m =
     \<lparr>mode = m, size = size im,
      colour = fst (convert_px P m im), alpha = snd (convert_px P m im)\<rparr>"

definition resize :: "pil \<Rightarrow> image \<Rightarrow> int \<times> int \<Rightarrow> image" where
  "resize P im new_size =
     \<lparr>mode = mode im, size = new_size,
      colour = fst (resample_px P new_size im), alpha = snd (resample_px P new_size im)\<rparr>"

text \<open>\<open>im.split()[3]\<close> of an RGBA image is its alpha band; \<open>band.point(f)\<close> maps \<open>f\<close> over it.\<close>

definition split3 :: "image \<Rightarrow> int list" where
  "split3 im = alpha im"

definition point :: "(int \<Rightarrow> int) \<Rightarrow> int list \<Rightarrow> int list" where
  "point f band = map f band"

text \<open>
  Image objects live in a store; a reference is an index into it. Python never frees an
  object that is still referenced, so allocation appends.
\<close>

type_synonym ref = nat
type_synonym heap = "image list"

definition alloc :: "heap \<Rightarrow> image \<Rightarrow> heap \<times> ref" where
  "alloc h im = (h @ [im], length h)"

definition putalpha :: "heap \<Rightarrow> ref \<Rightarrow> int list \<Rightarrow> heap" where
  "putalpha h r band = h[r := (h ! r)\<lparr>alpha := band\<rparr>]"

definition paste :: "pil \<Rightarrow> heap \<Rightarrow> ref \<Rightarrow> image \<Rightarrow> int \<times> int \<Rightarrow> heap" where
  "paste P h r im box =
     h[r := (h ! r)\<lparr>colour := fst (paste_px P (h ! r) im box),
                      alpha := snd (paste_px P (h ! r) im box)\<rparr>]"

text \<open>
  A stand-in for the library's pixel arithmetic, for evaluating the model on concrete
  images: conversion makes every pixel opaque, resampling fills the new area uniformly,
  pasting leaves the pixels of the target as they are, a file decodes unless it is
  empty (to one row with a pixel per byte), encoding writes the format name and the
  colours.
\<close>

definition flat_pil :: pil where
  "flat_pil =
     \<lparr>convert_px = (\<lambda>m im. (colour im, map (\<lambda>_. 255) (colour im))),
      resample_px = (\<lambda>new_size im.
         (replicate (nat (fst new_size * snd new_size)) 0,
          replicate (nat (fst new_size * snd new_size)) 255)),
      paste_px = (\<lambda>target im box. (colour target, alpha target)),
      decode = (\<lambda>bytes. if bytes = [] then None
         else Some \<lparr>mode = ''RGB'', size = (int (length bytes), 1),
                    colour = map of_char bytes, alpha = map (\<lambda>_. 255) bytes\<rparr>),
      encode = (\<lambda>format_type im. format_type @ map char_of (colour im))\<rparr>"

section \<open>ImageProcessor\<close>


text \<open>
  \<open>ImageProcessor.apply_watermark\<close>, lines 183 to 203: the watermark that will be pasted.
  The local name \<open>watermark\<close> is rebound to a new object by \<open>convert\<close> and by \<open>resize\<close>;
  \<open>putalpha\<close> then writes into whichever object the name holds. The division cannot
  fail: it is reached only with a width above the target width, which is at least 30.
  In exact arithmetic \<open>width * (target_width / width)\<close> is \<open>target_width\<close>; a double
  may fall just below it, so the theorems on this function state bounds only.
\<close>

definition scaled_watermark :: "pil \<Rightarrow> heap \<Rightarrow> ref \<Rightarrow> int \<Rightarrow> int \<Rightarrow> heap \<times> ref" where
  "scaled_watermark P h watermark opacity target_width =
     (let (h1, wm1) =
            (if mode (h ! watermark) \<noteq> ''RGBA''
             then alloc h (convert P (h ! watermark) ''RGBA'')
             else (h, watermark));
          target_width = max target_width 30;
          (h2, wm2) =
            (if im_width (h1 ! wm1) > target_width then
               (let scale_factor = of_int target_width / of_int (im_width (h1 ! wm1));
                    new_size = (py_int (of_int (im_width (h1 ! wm1)) * scale_factor),
                                py_int (of_int (im_height (h1 ! wm1)) * scale_factor))
                in alloc h1 (resize P (h1 ! wm1) new_size))
             else (h1, wm1));
          h3 = (if opacity < 100
                then putalpha h2 wm2
                       (point (\<lambda>p. py_int (of_int (p * opacity) / 100)) (split3 (h2 ! wm2)))
                else h2)
      in (h3, wm2))"

text \<open>\<open>ImageProcessor.apply_watermark\<close>, lines 167 to 228, returning the store and the result.\<close>

definition apply_watermark ::
  "pil \<Rightarrow> heap \<Rightarrow> ref \<Rightarrow> ref \<Rightarrow> string \<Rightarrow> int \<Rightarrow> int \<Rightarrow> int \<Rightarrow> heap \<times> ref" where
  "apply_watermark P h base_image watermark position opacity margin target_width =
     (let (h3, wm) = scaled_watermark P h watermark opacity target_width;
          (base_width, base_height) = size (h3 ! base_image);
          (wm_width, wm_height) = size (h3 ! wm);
          x = (if CHR ''L'' \<in> set position then margin
               else if CHR ''R'' \<in> set position then base_width - wm_width - margin
               else (base_width - wm_width) div 2);
          y = (if CHR ''T'' \<in> set position then margin
               else if CHR ''B'' \<in> set position then base_height - wm_height - margin
               else (base_height - wm_height) div 2);
          (h4, result) = alloc h3 (copy (h3 ! base_image))
      in (paste P h4 result (h4 ! wm) (x, y), result))"

section \<open>Paths and the filesystem\<close>

text \<open>
  A \<open>pathlib\<close> path is the list of its \<open>parts\<close>; an absolute POSIX path starts with the
  part \<open>/\<close>, and \<open>Path('.')\<close> is the empty list. Comparison is by parts, as \<open>pathlib\<close> does
  it: nothing resolves a path against the working directory or follows links.
  Strings are ASCII.
\<close>

type_synonym path = "string list"

definition lower_char :: "char \<Rightarrow> char" where
  "lower_char c =
     (let n = (of_char c :: nat) in if 65 \<le> n \<and> n \<le> 90 then char_of (n + 32) else c)"


definition lower :: "string \<Rightarrow> string" where
  "lower s = map lower_char s"


definition is_absolute :: "path \<Rightarrow> bool" where
  "is_absolute p = (case p of [] \<Rightarrow> False | x # _ \<Rightarrow> x = ''/'')"

definition name :: "path \<Rightarrow> string" where
  "name p = (if p = [] \<or> p = [''/''] then [] else last p)"


text \<open>
  \<open>PurePath.suffix\<close>: the name from its last dot on, unless that dot starts or ends
  the name.
\<close>

definition name_suffix :: "string \<Rightarrow> string" where
  "name_suffix n =
     (let k = length (takeWhile (\<lambda>c. c \<noteq> CHR ''.'') (rev n))
      in if CHR ''.'' \<in> set n \<and> 0 < k \<and> Suc k < length n then drop (length n - Suc k) n
         else [])"

definition suffix :: "path \<Rightarrow> string" where
  "suffix p = name_suffix (name p)"


text \<open>
  \<open>PurePath.relative_to\<close>: the rest of the path below \<open>other\<close>, or \<open>ValueError\<close> when
  the anchors differ or the parts of \<open>other\<close> do not start the path.
\<close>

definition relative_to :: "path \<Rightarrow> path \<Rightarrow> py_error + path" where
  "relative_to p other =
     (if is_absolute p = is_absolute other \<and> take (length other) p = other
      then Inr (drop (length other) p)
      else Inl ValueError)"




text \<open>The filesystem: the bytes of every file, and the directories.\<close>

record filesystem =
  file_bytes :: "path \<rightharpoonup> string"
  dirs :: "path set"

definition is_dir :: "filesystem \<Rightarrow> path \<Rightarrow> bool" where
  "is_dir fs p = (p \<in> dirs fs)"

definition is_file :: "filesystem \<Rightarrow> path \<Rightarrow> bool" where
  "is_file fs p = (file_bytes fs p \<noteq> None)"

definition exists :: "filesystem \<Rightarrow> path \<Rightarrow> bool" where
  "exists fs p = (is_file fs p \<or> is_dir fs p)"



section \<open>FileManager\<close>

text \<open>\<open>FileManager.validate_paths\<close>, lines 323 to 352.\<close>

definition validate_paths :: "filesystem \<Rightarrow> path \<Rightarrow> path \<Rightarrow> path \<Rightarrow> bool \<times> string" where
  "validate_paths fs input_dir output_dir watermark_file =
     (if \<not> is_dir fs input_dir then (False, ''Input directory does not exist'')
      else if \<not> is_file fs watermark_file then (False, ''Watermark file does not exist'')
      else if lower (suffix watermark_file) \<noteq> ''.png''
        then (False, ''Watermark must be a PNG file'')
      else (case relative_to output_dir input_dir of
              Inr _ \<Rightarrow> (False, ''Output directory cannot be inside input directory'')
            | Inl _ \<Rightarrow> (True, ''Paths are valid'')))"

text \<open>\<open>Image.open(path)\<close>: the file must exist and the library must identify it.\<close>

definition image_open :: "pil \<Rightarrow> filesystem \<Rightarrow> path \<Rightarrow> py_error + image" where
  "image_open P fs p =
     (case file_bytes fs p of None \<Rightarrow> Inl FileNotFoundError
      | Some bytes \<Rightarrow> (case decode P bytes of None \<Rightarrow> Inl UnidentifiedImageError
                       | Some im \<Rightarrow> Inr im))"

definition SUPPORTED_FORMATS :: "string list" where
  "SUPPORTED_FORMATS = [''.jpg'', ''.jpeg'', ''.png'', ''.webp'', ''.tif'', ''.tiff'', ''.bmp'']"

definition MAX_BATCH_SIZE :: nat where
  "MAX_BATCH_SIZE = 5000"

definition MAX_DIRECTORY_DEPTH :: int where
  "MAX_DIRECTORY_DEPTH = 50"

text \<open>
  The order in which the operating system lists a directory is a parameter: what
  \<open>directory.rglob('*')\<close> and \<open>directory.iterdir()\<close> yield.
\<close>

record traversal =
  rglob :: "path \<Rightarrow> path list"
  iterdir :: "path \<Rightarrow> path list"

text \<open>
  \<open>FileManager.find_supported_images\<close>, lines 260 to 321. Both traversals classify a file
  by the same statements (lines 286 to 295 and 304 to 312):
\<close>

definition scan_file ::
  "pil \<Rightarrow> filesystem \<Rightarrow> path \<Rightarrow> path list \<times> nat \<Rightarrow> path list \<times> nat" where
  "scan_file P fs file_path acc =
     (let (images, ignored_count) = acc
      in if lower (suffix file_path) \<in> set SUPPORTED_FORMATS then
           (case image_open P fs file_path of
              Inr _ \<Rightarrow> (images @ [file_path], ignored_count)
            | Inl _ \<Rightarrow> (images, ignored_count + 1))
         else if lower (suffix file_path) \<in> set [''.avif'', ''.heic'', ''.gif'', ''.tga'', ''.pcx'']
           then (images, ignored_count + 1)
         else (images, ignored_count))"

fun rglob_loop ::
  "pil \<Rightarrow> filesystem \<Rightarrow> path \<Rightarrow> int \<Rightarrow> path list \<Rightarrow> path list \<times> nat \<Rightarrow> path list \<times> nat" where
  "rglob_loop P fs directory max_depth [] acc = acc"
| "rglob_loop P fs directory max_depth (file_path # rest) acc =
     (let acc' = (if int (length file_path) - int (length directory) \<le> max_depth
                     \<and> is_file fs file_path
                  then scan_file P fs file_path acc else acc)
      in if length (fst acc') \<ge> MAX_BATCH_SIZE then acc'
         else rglob_loop P fs directory max_depth rest acc')"

fun iterdir_loop ::
  "pil \<Rightarrow> filesystem \<Rightarrow> path list \<Rightarrow> path list \<times> nat \<Rightarrow> path list \<times> nat" where
  "iterdir_loop P fs [] acc = acc"
| "iterdir_loop P fs (file_path # rest) acc =
     (let acc' = (if is_file fs file_path then scan_file P fs file_path acc else acc)
      in if length (fst acc') \<ge> MAX_BATCH_SIZE then acc'
         else iterdir_loop P fs rest acc')"

definition find_supported_images ::
  "pil \<Rightarrow> filesystem \<Rightarrow> traversal \<Rightarrow> path \<Rightarrow> int \<Rightarrow> bool \<Rightarrow> path list \<times> nat" where
  "find_supported_images P fs T directory max_depth include_subfolders =
     (if \<not> is_dir fs directory then ([], 0)
      else if include_subfolders
        then rglob_loop P fs directory max_depth (rglob T directory) ([], 0)
      else iterdir_loop P fs (iterdir T directory) ([], 0))"

text \<open>
  Vocabulary for stating what a scan finds: the files it looks at, in traversal order
  (within the depth bound when subfolders are included), whether a file has a supported
  extension, one of the extensions known to be unsupported, and whether it decodes.
\<close>

definition visited :: "filesystem \<Rightarrow> traversal \<Rightarrow> path \<Rightarrow> int \<Rightarrow> bool \<Rightarrow> path list" where
  "visited fs T directory max_depth include_subfolders =
     (if include_subfolders
      then filter (\<lambda>p. int (length p) - int (length directory) \<le> max_depth \<and> is_file fs p)
             (rglob T directory)
      else filter (is_file fs) (iterdir T directory))"

definition supported :: "path \<Rightarrow> bool" where
  "supported p = (lower (suffix p) \<in> set SUPPORTED_FORMATS)"

definition known_unsupported :: "path \<Rightarrow> bool" where
  "known_unsupported p =
     (lower (suffix p) \<in> set [''.avif'', ''.heic'', ''.gif'', ''.tga'', ''.pcx''])"

definition decodes :: "pil \<Rightarrow> filesystem \<Rightarrow> path \<Rightarrow> bool" where
  "decodes P fs p = (case image_open P fs p of Inr _ \<Rightarrow> True | Inl _ \<Rightarrow> False)"

section \<open>Batch processing\<close>



definition FORMAT_OPTIONS :: "string \<Rightarrow> string option" where
  "FORMAT_OPTIONS k =
     (if k = ''JPG'' then Some ''JPEG'' else if k = ''PNG'' then Some ''PNG''
      else if k = ''WEBP'' then Some ''WEBP'' else None)"


record settings =
  anchor :: string
  opacity :: int
  margin :: int
  scale :: int
  max_size :: int
  auto_scale :: bool
  dry_run :: bool
  create_zip :: bool
  overwrite_mode :: string









section \<open>Entry points\<close>




section \<open>Concrete inputs\<close>

definition portrait_600x800 :: image where
  "portrait_600x800 = \<lparr>mode = ''RGB'', size = (600, 800), colour = [], alpha = []\<rparr>"

definition landscape_101x50 :: image where
  "landscape_101x50 = \<lparr>mode = ''RGB'', size = (101, 50), colour = [], alpha = []\<rparr>"

definition logo_2x1 :: image where
  "logo_2x1 = \<lparr>mode = ''RGBA'', size = (2, 1), colour = [7, 7], alpha = [255, 128]\<rparr>"





definition fs_photos :: filesystem where
  "fs_photos =
     \<lparr>file_bytes = [[''photos'', ''a.png''] \<mapsto> ''abc'', [''logo.png''] \<mapsto> ''logo'',
                     [''logo.webp''] \<mapsto> ''logo''],
      dirs = {[''photos'']}\<rparr>"

definition fs_no_input :: filesystem where
  "fs_no_input = \<lparr>file_bytes = [[''logo.webp''] \<mapsto> ''logo''], dirs = {}\<rparr>"




text \<open>A folder of 5001 image files, \<open>aaa.png\<close> to \<open>hki.png\<close>.\<close>

definition photo_name :: "nat \<Rightarrow> string" where
  "photo_name n =
     [char_of (97 + n div 676), char_of (97 + n div 26 mod 26), char_of (97 + n mod 26)]
       @ ''.png''"

definition many_files :: "path list" where
  "many_files = map (\<lambda>n. [''in'', photo_name n]) [0..<5001]"

definition fs_many :: filesystem where
  "fs_many =
     \<lparr>file_bytes = (\<lambda>p. if p \<in> set many_files then Some ''img'' else None),
      dirs = {[''in'']}\<rparr>"

definition ls_many :: traversal where
  "ls_many = \<lparr>rglob = (\<lambda>d. if d = [''in''] then many_files else []),
               iterdir = (\<lambda>d. if d = [''in''] then many_files else [])\<rparr>"

text \<open>A folder with a good image, an empty (undecodable) one, an animation and a note.\<close>

definition fs_scan :: filesystem where
  "fs_scan =
     \<lparr>file_bytes = [[''photos'', ''a.png''] \<mapsto> ''abc'', [''photos'', ''b.JPG''] \<mapsto> [],
                     [''photos'', ''c.gif''] \<mapsto> ''gif'', [''photos'', ''notes.txt''] \<mapsto> ''hi''],
      dirs = {[''photos'']}\<rparr>"

definition ls_scan :: traversal where
  "ls_scan =
     \<lparr>rglob = (\<lambda>d. [[''photos'', ''a.png''], [''photos'', ''b.JPG''],
                     [''photos'', ''c.gif''], [''photos'', ''notes.txt'']]),
      iterdir = (\<lambda>d. [[''photos'', ''a.png''], [''photos'', ''b.JPG''],
                       [''photos'', ''c.gif''], [''photos'', ''notes.txt'']])\<rparr>"


section \<open>Properties\<close>

subsection \<open>Truncation of non-negative quotients\<close>

lemma py_int_div: "0 \<le> a \<Longrightarrow> 0 < b \<Longrightarrow> py_int (of_int a / of_int b) = a div b"
  by (simp add: py_int_def floor_divide_of_int_eq)

lemma py_int_percent: "0 \<le> a \<Longrightarrow> py_int (of_int a / 100) = a div 100"
  using py_int_div [of a 100] by simp

lemma py_int_half: "0 \<le> a \<Longrightarrow> py_int (of_int a / 2) = a div 2"
  using py_int_div [of a 2] by simp

lemma py_int_boost: "0 \<le> a \<Longrightarrow> py_int (of_int a * 3 / 200) = (3 * a) div 200"
proof -
  assume a: "0 \<le> a"
  have "(of_int a * 3 / 200 :: rat) = of_int (3 * a) / of_int 200" by simp
  then show ?thesis using py_int_div [of "3 * a" 200] a by (simp only:)
qed


subsection \<open>Target watermark width\<close>

text \<open>
  C1 (as amended). For a base image of width \<open>w \<ge> 1\<close> and height \<open>h \<ge> 1\<close> and a scale
  percentage \<open>s\<close> in \<open>[1, 100]\<close>, the batch worker and the command-line loop compute the
  four-branch table with every quotient truncated, not rounded: half the width for an
  auto-scaled portrait, \<open>s\<close> percent of the shorter edge for an auto-scaled landscape,
  one and a half times \<open>s\<close> percent of the width for a portrait, \<open>s\<close> percent of the
  width otherwise, each floored and then raised to at least 40.
\<close>

theorem target_width_truncates:
  assumes "size img = (w, h)" and "1 \<le> w" and "1 \<le> h" and "1 \<le> s" and "s \<le> 100"
  shows "batch_target_width img s a =
           (if a then (if h > w then max 40 (w div 2) else max 40 (min w h * s div 100))
            else (if h > w then max 40 (3 * (w * s) div 200) else max 40 (w * s div 100)))
         \<and> cli_target_width img s a = batch_target_width img s a
         \<and> 40 \<le> batch_target_width img s a"
proof -
  have w: "0 \<le> w" "0 \<le> w * s" "0 \<le> h * s" using assms by simp_all
  have b: "batch_target_width img s a =
           (if a then (if h > w then max 40 (w div 2) else max 40 (min w h * s div 100))
            else (if h > w then max 40 (3 * (w * s) div 200) else max 40 (w * s div 100)))"
    using assms(1) w
    by (simp add: batch_target_width_def im_width_def im_height_def
        py_int_half py_int_percent py_int_boost del: of_int_mult)
  have c: "cli_target_width img s a = batch_target_width img s a"
    by (simp add: batch_target_width_def cli_target_width_def)
  have "40 \<le> batch_target_width img s a"
    by (simp add: batch_target_width_def Let_def)
  with b c show ?thesis by simp
qed

text \<open>The portrait of 600 by 800 pixels at 30 percent, not auto-scaled, gets 270 pixels.\<close>

theorem target_width_truncates_witness:
  "batch_target_width portrait_600x800 30 False = 270
   \<and> cli_target_width portrait_600x800 30 False = 270"
  using target_width_truncates [of portrait_600x800 600 800 30 False]
  by (simp add: portrait_600x800_def)

text \<open>
  C1 as stated fails: for a landscape of 101 by 50 pixels at 59 percent the quotient is
  59.59, which the code truncates to 59 and rounding takes to 60.
\<close>

theorem target_width_round_counterexample:
  "batch_target_width landscape_101x50 59 False = 59
   \<and> cli_target_width landscape_101x50 59 False = 59
   \<and> max 40 (round (101 * 59 / 100 :: rat)) = 60"
  by code_simp

text \<open>
  C2. The single-image preview, the batch worker and the command-line loop compute the
  same target width from the same base image, scale percentage and auto-scale flag.
\<close>

theorem target_width_sites_agree:
  "preview_target_width img s a = batch_target_width img s a
   \<and> batch_target_width img s a = cli_target_width img s a"
  by (cases "size img")
    (simp add: preview_target_width_def batch_target_width_def cli_target_width_def
      im_width_def im_height_def Let_def)

subsection \<open>Resizing to fit\<close>





subsection \<open>Compositing\<close>



text \<open>
  Which objects \<open>apply_watermark\<close> writes to: no object other than the watermark, and not
  the watermark either when the local name was rebound by \<open>convert\<close> or \<open>resize\<close>, or
  when the opacity is 100 or more.
\<close>

lemma scaled_watermark_frame:
  assumes "watermark < length h" and "r < length h" and "r \<noteq> watermark"
  shows "fst (scaled_watermark P h watermark op tw) ! r = h ! r"
  using assms
  by (auto simp: scaled_watermark_def alloc_def putalpha_def Let_def nth_append
      split: prod.splits if_splits)

lemma scaled_watermark_length:
  assumes "watermark < length h"
  shows "length h \<le> length (fst (scaled_watermark P h watermark op tw))"
  by (auto simp: scaled_watermark_def alloc_def putalpha_def Let_def
      split: prod.splits if_splits)

lemma scaled_watermark_rebound:
  assumes "watermark < length h"
    and "mode (h ! watermark) \<noteq> ''RGBA'' \<or> max tw 30 < im_width (h ! watermark) \<or> 100 \<le> op"
  shows "fst (scaled_watermark P h watermark op tw) ! watermark = h ! watermark"
  using assms
  by (auto simp: scaled_watermark_def alloc_def putalpha_def Let_def nth_append
      convert_def im_width_def split: prod.splits if_splits)

lemma apply_watermark_base_unchanged:
  assumes "base_image < length h" and "watermark < length h" and "base_image \<noteq> watermark"
  shows "fst (apply_watermark P h base_image watermark pos op mg tw) ! base_image = h ! base_image"
proof -
  obtain h3 wm where sw: "scaled_watermark P h watermark op tw = (h3, wm)"
    by (cases "scaled_watermark P h watermark op tw")
  have len: "length h \<le> length h3"
    using scaled_watermark_length [OF assms(2), of P op tw] sw by simp
  have keep: "h3 ! base_image = h ! base_image"
    using scaled_watermark_frame [OF assms(2) assms(1) assms(3), of P op tw] sw by simp
  show ?thesis
    using len keep assms(1)
    by (simp add: apply_watermark_def sw alloc_def paste_def Let_def nth_append
        split: prod.splits)
qed

text \<open>
  C5 (the code departs from it). A watermark that is already RGBA and no wider than the
  target width stays bound to the caller's object, and \<open>putalpha\<close> writes the reduced
  alpha band into it: after one call at opacity 80 the shared watermark's alpha values
  255 and 128 have become 204 and 102.
\<close>

theorem apply_watermark_mutates_shared_watermark:
  "fst (apply_watermark flat_pil [portrait_600x800, logo_2x1] 0 1 ''BR'' 80 25 270) ! 1
     = logo_2x1\<lparr>alpha := [204, 102]\<rparr>
   \<and> fst (apply_watermark flat_pil [portrait_600x800, logo_2x1] 0 1 ''BR'' 80 25 270) ! 1
     \<noteq> [portrait_600x800, logo_2x1] ! 1"
  by code_simp

subsection \<open>The worker pool\<close>





subsection \<open>Path validation\<close>






text \<open>
  C10 (as amended). Validation accepts only a watermark file whose extension is
  \<open>.png\<close> whatever its case. An existing watermark file with any other extension is
  always rejected; the message is \<open>Watermark must be a PNG file\<close> when the input
  directory exists, and the message about the input directory otherwise, since that
  check comes first.
\<close>

theorem validate_paths_png_only:
  "(fst (validate_paths fs input_dir output_dir watermark_file)
      \<longrightarrow> is_file fs watermark_file \<and> lower (suffix watermark_file) = ''.png'')
   \<and> (is_file fs watermark_file \<and> lower (suffix watermark_file) \<noteq> ''.png''
      \<longrightarrow> \<not> fst (validate_paths fs input_dir output_dir watermark_file)
          \<and> (is_dir fs input_dir
               \<longrightarrow> validate_paths fs input_dir output_dir watermark_file
                     = (False, ''Watermark must be a PNG file''))
          \<and> (\<not> is_dir fs input_dir
               \<longrightarrow> validate_paths fs input_dir output_dir watermark_file
                     = (False, ''Input directory does not exist'')))"
  by (simp add: validate_paths_def split: sum.splits)

text \<open>A WebP watermark is refused with the PNG message, a PNG one passes.\<close>

theorem validate_paths_png_only_witness:
  "validate_paths fs_photos [''photos''] [''out''] [''logo.webp'']
     = (False, ''Watermark must be a PNG file'')
   \<and> fst (validate_paths fs_photos [''photos''] [''out''] [''logo.png''])"
  using validate_paths_png_only [of fs_photos "[''photos'']" "[''out'']" "[''logo.webp'']"]
    validate_paths_png_only [of fs_photos "[''photos'']" "[''out'']" "[''logo.png'']"]
  by (simp add: is_absolute_def validate_paths_def relative_to_def fs_photos_def
      is_dir_def is_file_def suffix_def name_def name_suffix_def lower_def lower_char_def)

text \<open>
  C10 as stated fails: with an existing WebP watermark and no input directory the
  answer is invalid, but with the message about the input directory.
\<close>

theorem validate_paths_png_message_counterexample:
  "is_file fs_no_input [''logo.webp'']
   \<and> lower (suffix [''logo.webp'']) \<noteq> ''.png''
   \<and> validate_paths fs_no_input [''photos''] [''out''] [''logo.webp'']
       = (False, ''Input directory does not exist'')"
  by (simp add: validate_paths_def fs_no_input_def
      is_dir_def is_file_def suffix_def name_def name_suffix_def lower_def lower_char_def)

subsection \<open>Existing output files\<close>









subsection \<open>Discovery\<close>

lemma scan_file_cases:
  "scan_file P fs p (images, ignored) =
     (if supported p then (if decodes P fs p then (images @ [p], ignored) else (images, ignored + 1))
      else if known_unsupported p then (images, ignored + 1) else (images, ignored))"
  by (simp add: scan_file_def supported_def known_unsupported_def decodes_def split: sum.splits)

lemma rglob_loop_images:
  assumes "length images < MAX_BATCH_SIZE"
  shows "fst (rglob_loop P fs d md xs (images, ignored)) =
           images @ take (MAX_BATCH_SIZE - length images)
             (filter (\<lambda>p. supported p \<and> decodes P fs p)
                (filter (\<lambda>p. int (length p) - int (length d) \<le> md \<and> is_file fs p) xs))"
  using assms
proof (induction xs arbitrary: images ignored)
  case Nil
  then show ?case by simp
next
  case (Cons p xs)
  show ?case
  proof (cases "int (length p) - int (length d) \<le> md \<and> is_file fs p \<and> supported p \<and> decodes P fs p")
    case True
    show ?thesis
    proof (cases "Suc (length images) < MAX_BATCH_SIZE")
      case lt: True
      show ?thesis
        using True lt Cons.prems Cons.IH [of "images @ [p]" ignored]
        by (simp add: scan_file_cases Suc_diff_Suc take_Cons')
    next
      case False
      with Cons.prems have "MAX_BATCH_SIZE - length images = 1" by simp
      with True False show ?thesis by (simp add: scan_file_cases)
    qed
  next
    case False
    then show ?thesis
      using Cons.prems Cons.IH [of images] 
      by (auto simp: scan_file_cases)
  qed
qed

lemma rglob_loop_ignored:
  assumes "length images + length (filter (\<lambda>p. supported p \<and> decodes P fs p)
                (filter (\<lambda>p. int (length p) - int (length d) \<le> md \<and> is_file fs p) xs))
             < MAX_BATCH_SIZE"
  shows "snd (rglob_loop P fs d md xs (images, ignored)) =
           ignored + length (filter (\<lambda>p. supported p \<and> \<not> decodes P fs p)
                (filter (\<lambda>p. int (length p) - int (length d) \<le> md \<and> is_file fs p) xs))
             + length (filter (\<lambda>p. \<not> supported p \<and> known_unsupported p)
                (filter (\<lambda>p. int (length p) - int (length d) \<le> md \<and> is_file fs p) xs))"
  using assms
proof (induction xs arbitrary: images ignored)
  case Nil
  then show ?case by simp
next
  case (Cons p xs)
  show ?case
  proof (cases "int (length p) - int (length d) \<le> md \<and> is_file fs p \<and> supported p \<and> decodes P fs p")
    case True
    then show ?thesis
      using Cons.prems Cons.IH [of "images @ [p]" ignored]
      by (simp add: scan_file_cases)
  next
    case False
    then show ?thesis
      using Cons.prems Cons.IH [of images] 
      by (auto simp: scan_file_cases)
  qed
qed

lemma iterdir_loop_images:
  assumes "length images < MAX_BATCH_SIZE"
  shows "fst (iterdir_loop P fs xs (images, ignored)) =
           images @ take (MAX_BATCH_SIZE - length images)
             (filter (\<lambda>p. supported p \<and> decodes P fs p) (filter (is_file fs) xs))"
  using assms
proof (induction xs arbitrary: images ignored)
  case Nil
  then show ?case by simp
next
  case (Cons p xs)
  show ?case
  proof (cases "is_file fs p \<and> supported p \<and> decodes P fs p")
    case True
    show ?thesis
    proof (cases "Suc (length images) < MAX_BATCH_SIZE")
      case lt: True
      show ?thesis
        using True lt Cons.prems Cons.IH [of "images @ [p]" ignored]
        by (simp add: scan_file_cases Suc_diff_Suc take_Cons')
    next
      case False
      with Cons.prems have "MAX_BATCH_SIZE - length images = 1" by simp
      with True False show ?thesis by (simp add: scan_file_cases)
    qed
  next
    case False
    then show ?thesis
      using Cons.prems Cons.IH [of images]
      by (auto simp: scan_file_cases)
  qed
qed

lemma iterdir_loop_ignored:
  assumes "length images + length (filter (\<lambda>p. supported p \<and> decodes P fs p)
                (filter (is_file fs) xs)) < MAX_BATCH_SIZE"
  shows "snd (iterdir_loop P fs xs (images, ignored)) =
           ignored + length (filter (\<lambda>p. supported p \<and> \<not> decodes P fs p) (filter (is_file fs) xs))
             + length (filter (\<lambda>p. \<not> supported p \<and> known_unsupported p) (filter (is_file fs) xs))"
  using assms
proof (induction xs arbitrary: images ignored)
  case Nil
  then show ?case by simp
next
  case (Cons p xs)
  show ?case
  proof (cases "is_file fs p")
    case False
    then show ?thesis
      using Cons.prems Cons.IH [of images ignored] by simp
  next
    case isf: True
    show ?thesis
    proof (cases "supported p \<and> decodes P fs p")
      case True
      then show ?thesis
        using isf Cons.prems Cons.IH [of "images @ [p]" ignored]
        by (simp add: scan_file_cases)
    next
      case False
      then show ?thesis
        using isf Cons.prems Cons.IH [of images "ignored + 1"] Cons.IH [of images ignored]
        by (auto simp: scan_file_cases)
    qed
  qed
qed

lemma length_filter_split:
  "length (filter A xs) =
     length (filter (\<lambda>p. A p \<and> B p) xs) + length (filter (\<lambda>p. A p \<and> \<not> B p) xs)"
  by (induction xs) simp_all

lemma find_supported_images_assets:
  assumes "is_dir fs directory"
  shows "fst (find_supported_images P fs T directory max_depth include_subfolders) =
           take MAX_BATCH_SIZE (filter (\<lambda>p. supported p \<and> decodes P fs p)
             (visited fs T directory max_depth include_subfolders))"
  using assms rglob_loop_images [of "[]" P fs directory max_depth "rglob T directory" 0]
    iterdir_loop_images [of "[]" P fs "iterdir T directory" 0]
  by (simp add: find_supported_images_def visited_def MAX_BATCH_SIZE_def)

lemma find_supported_images_ignored:
  assumes "is_dir fs directory"
    and "length (filter (\<lambda>p. supported p \<and> decodes P fs p)
             (visited fs T directory max_depth include_subfolders)) < MAX_BATCH_SIZE"
  shows "snd (find_supported_images P fs T directory max_depth include_subfolders) =
           length (filter (\<lambda>p. supported p \<and> \<not> decodes P fs p)
             (visited fs T directory max_depth include_subfolders))
           + length (filter (\<lambda>p. \<not> supported p \<and> known_unsupported p)
             (visited fs T directory max_depth include_subfolders))"
  using assms rglob_loop_ignored [of "[]" P fs directory max_depth "rglob T directory" 0]
    iterdir_loop_ignored [of "[]" P fs "iterdir T directory" 0]
  by (simp add: find_supported_images_def visited_def split: if_splits)

text \<open>
  C9 (as amended). Of the files a scan of an existing directory looks at, let \<open>n\<close> have a
  supported extension and \<open>k\<close> of those fail to decode. The assets returned are the
  decodable supported files in traversal order, cut off after \<open>MAX_BATCH_SIZE\<close> = 5000;
  so there are \<open>n - k\<close> of them when \<open>n - k\<close> is at most 5000, and when it is below 5000
  the ignored count is \<open>k\<close> plus the number of files with a known unsupported extension,
  hence at least \<open>k\<close>. A file that fails to decode never stops the scan.
\<close>

theorem find_supported_images_counts:
  assumes "is_dir fs directory"
  shows "(let looked = visited fs T directory max_depth include_subfolders;
              n = length (filter supported looked);
              k = length (filter (\<lambda>p. supported p \<and> \<not> decodes P fs p) looked);
              (assets, ignored) =
                 find_supported_images P fs T directory max_depth include_subfolders
          in assets = take MAX_BATCH_SIZE (filter (\<lambda>p. supported p \<and> decodes P fs p) looked)
             \<and> length assets \<le> MAX_BATCH_SIZE
             \<and> (n - k \<le> MAX_BATCH_SIZE \<longrightarrow> length assets = n - k)
             \<and> (n - k < MAX_BATCH_SIZE \<longrightarrow>
                  ignored = k + length (filter (\<lambda>p. \<not> supported p \<and> known_unsupported p) looked)
                  \<and> k \<le> ignored))"
proof -
  let ?looked = "visited fs T directory max_depth include_subfolders"
  let ?good = "filter (\<lambda>p. supported p \<and> decodes P fs p) ?looked"
  let ?k = "length (filter (\<lambda>p. supported p \<and> \<not> decodes P fs p) ?looked)"
  have n: "length (filter supported ?looked) - ?k = length ?good"
    using length_filter_split [of supported ?looked "decodes P fs"] by simp
  have a: "fst (find_supported_images P fs T directory max_depth include_subfolders)
             = take MAX_BATCH_SIZE ?good"
    by (rule find_supported_images_assets [OF assms])
  have i: "length ?good < MAX_BATCH_SIZE \<Longrightarrow>
      snd (find_supported_images P fs T directory max_depth include_subfolders)
        = ?k + length (filter (\<lambda>p. \<not> supported p \<and> known_unsupported p) ?looked)"
    by (rule find_supported_images_ignored [OF assms])
  show ?thesis
    unfolding Let_def case_prod_beta n using a i by simp
qed

lemma scan_facts:
  "is_dir fs_scan [''photos'']"
  "visited fs_scan ls_scan [''photos''] MAX_DIRECTORY_DEPTH True =
     [[''photos'', ''a.png''], [''photos'', ''b.JPG''], [''photos'', ''c.gif''],
      [''photos'', ''notes.txt'']]"
  "supported [''photos'', ''a.png'']" "supported [''photos'', ''b.JPG'']"
  "\<not> supported [''photos'', ''c.gif'']" "\<not> supported [''photos'', ''notes.txt'']"
  "known_unsupported [''photos'', ''c.gif'']" "\<not> known_unsupported [''photos'', ''notes.txt'']"
  "decodes flat_pil fs_scan [''photos'', ''a.png'']"
  "\<not> decodes flat_pil fs_scan [''photos'', ''b.JPG'']"
  by code_simp+

text \<open>One good image, one undecodable, one animation, one note: one asset, two ignored.\<close>

theorem find_supported_images_counts_witness:
  "find_supported_images flat_pil fs_scan ls_scan [''photos''] MAX_DIRECTORY_DEPTH True
     = ([[''photos'', ''a.png'']], 2)"
  using find_supported_images_counts [of fs_scan "[''photos'']" ls_scan MAX_DIRECTORY_DEPTH True flat_pil]
  by (simp add: scan_facts MAX_BATCH_SIZE_def case_prod_beta Let_def prod_eq_iff)

lemma many_files_length: "length many_files = 5001"
  by (simp add: many_files_def)

lemma many_files_shape:
  assumes "p \<in> set many_files"
  shows "\<exists>a b c. p = [''in'', [a, b, c] @ ''.png'']"
  using assms by (auto simp: many_files_def photo_name_def)

lemma many_files_good:
  assumes "p \<in> set many_files"
  shows "supported p" and "decodes flat_pil fs_many p" and "is_file fs_many p"
    and "int (length p) - int (length [''in'']) \<le> MAX_DIRECTORY_DEPTH"
proof -
  obtain a b c where p: "p = [''in'', [a, b, c] @ ''.png'']"
    using many_files_shape [OF assms] by blast
  show "supported p"
    by (simp add: p supported_def suffix_def name_def name_suffix_def lower_def lower_char_def
        SUPPORTED_FORMATS_def)
  show "decodes flat_pil fs_many p" and "is_file fs_many p"
    using assms by (simp_all add: decodes_def image_open_def fs_many_def flat_pil_def is_file_def)
  show "int (length p) - int (length [''in'']) \<le> MAX_DIRECTORY_DEPTH"
    by (simp add: p MAX_DIRECTORY_DEPTH_def)
qed

lemma visited_many: "visited fs_many ls_many [''in''] MAX_DIRECTORY_DEPTH True = many_files"
  using many_files_good(3,4) by (simp add: visited_def ls_many_def filter_id_conv)

text \<open>
  C9 as stated fails: of 5001 supported files that all decode, 5000 are returned.
\<close>

theorem find_supported_images_cap_counterexample:
  "is_dir fs_many [''in'']
   \<and> length (visited fs_many ls_many [''in''] MAX_DIRECTORY_DEPTH True) = 5001
   \<and> list_all supported (visited fs_many ls_many [''in''] MAX_DIRECTORY_DEPTH True)
   \<and> list_all (decodes flat_pil fs_many) (visited fs_many ls_many [''in''] MAX_DIRECTORY_DEPTH True)
   \<and> length (fst (find_supported_images flat_pil fs_many ls_many [''in''] MAX_DIRECTORY_DEPTH True))
       = 5000"
proof -
  have d: "is_dir fs_many [''in'']" by (simp add: is_dir_def fs_many_def)
  have g: "filter (\<lambda>p. supported p \<and> decodes flat_pil fs_many p) many_files = many_files"
    using many_files_good(1,2) by (simp add: filter_id_conv)
  have "length (fst (find_supported_images flat_pil fs_many ls_many [''in''] MAX_DIRECTORY_DEPTH True))
       = 5000"
    by (simp add: find_supported_images_assets [OF d] visited_many g many_files_length
        MAX_BATCH_SIZE_def)
  with d show ?thesis
    using many_files_good(1,2) by (simp add: visited_many many_files_length list_all_iff)
qed

end
